theory Spec2Isabelle
  imports Main
begin

section \<open>The IFC consumer of qto\_ifc-msg (src/qto\_ifc-msg/src/index.ts)\<close>

text \<open>
  The module subscribes to a Kafka topic and, for each message, downloads the file the
  message points to from MinIO together with its metadata and hands both to
  \<^verbatim>\<open>sendIFCFile\<close>. The handler is typed \<^verbatim>\<open>(message: any)\<close>, so the
  values it touches are modelled as JavaScript values, with the operations the handler
  applies to them (truthiness, \<^verbatim>\<open>toString\<close>, property reads, template
  interpolation) written out. Everything the handler does to the outside world (a log line,
  a call of a collaborator) is an event of a trace; a thrown exception or a rejected
  promise is the \<open>Inl\<close> branch of a sum.
\<close>

subsection \<open>JavaScript values\<close>

text \<open>
  \<open>JBuf\<close> is a Node Buffer, carried as the text its \<^verbatim>\<open>toString()\<close> decodes to
  (the value of a message delivered by the Kafka client is a Buffer or null);
  \<open>JObj\<close> is a plain object as its list of own properties.
\<close>

datatype jsval =
    JUndefined
  | JNull
  | JStr string
  | JBuf string
  | JObj "(string \<times> jsval) list"

text \<open>
  What can be thrown: the TypeError of \<^verbatim>\<open>v.name\<close> and \<^verbatim>\<open>v.name()\<close> (reading a
  property of \<^verbatim>\<open>undefined\<close> or \<^verbatim>\<open>null\<close>, or calling a property that is not
  a function; it carries the value and the property), and a failure raised by a
  collaborator (MinIO, the sender, the Kafka client), identified by its message.
\<close>

datatype error =
    TypeError jsval string
  | Failure string

text \<open>Truthiness, as \<^verbatim>\<open>if (v)\<close> and \<^verbatim>\<open>!v\<close> test it: an object, also an empty
  Buffer, is truthy; the empty string is not.\<close>

fun truthy :: "jsval \<Rightarrow> bool" where
  "truthy JUndefined = False"
| "truthy JNull = False"
| "truthy (JStr s) = (s \<noteq> [])"
| "truthy (JBuf b) = True"
| "truthy (JObj kvs) = True"

fun nullish :: "jsval \<Rightarrow> bool" where
  "nullish JUndefined = True"
| "nullish JNull = True"
| "nullish v = False"

text \<open>The text of a value: what a template literal \<^verbatim>\<open>`${v}`\<close> interpolates (the
  handler interpolates the file id only, which \<^verbatim>\<open>pop\<close> returns: a string, or
  \<^verbatim>\<open>undefined\<close>).\<close>

fun String_of :: "jsval \<Rightarrow> string" where
  "String_of JUndefined = ''undefined''"
| "String_of JNull = ''null''"
| "String_of (JStr s) = s"
| "String_of (JBuf b) = b"
| "String_of (JObj kvs) = ''[object Object]''"

text \<open>
  \<^verbatim>\<open>v.toString()\<close>: a method call. It throws on \<^verbatim>\<open>undefined\<close> and
  \<^verbatim>\<open>null\<close>. A string gives itself, a Buffer its decoded text, a plain object the
  text of \<^verbatim>\<open>Object.prototype.toString\<close>, unless an own property \<^verbatim>\<open>toString\<close>
  shadows the inherited method: the values of this model hold no function, so that
  property is not callable and the call throws.
\<close>

fun toString :: "jsval \<Rightarrow> error + string" where
  "toString JUndefined = Inl (TypeError JUndefined ''toString'')"
| "toString JNull = Inl (TypeError JNull ''toString'')"
| "toString (JStr s) = Inr s"
| "toString (JBuf b) = Inr b"
| "toString (JObj kvs) =
     (case map_of kvs ''toString'' of
        None \<Rightarrow> Inr ''[object Object]''
      | Some f \<Rightarrow> Inl (TypeError (JObj kvs) ''toString''))"

text \<open>
  \<^verbatim>\<open>v.name\<close> for the property names the handler reads (\<^verbatim>\<open>project\<close>,
  \<^verbatim>\<open>filename\<close>, \<^verbatim>\<open>timestamp\<close>, none of them a built-in property of a
  string or a Buffer): a missing property reads as \<^verbatim>\<open>undefined\<close>, and reading
  from \<^verbatim>\<open>undefined\<close> or \<^verbatim>\<open>null\<close> throws.
\<close>

fun prop_of :: "jsval \<Rightarrow> string \<Rightarrow> jsval" where
  "prop_of (JObj kvs) name = (case map_of kvs name of None \<Rightarrow> JUndefined | Some v \<Rightarrow> v)"
| "prop_of v name = JUndefined"

definition get_prop :: "jsval \<Rightarrow> string \<Rightarrow> error + jsval" where
  "get_prop v name = (if nullish v then Inl (TypeError v name) else Inr (prop_of v name))"

subsection \<open>Deriving the file id: \<^verbatim>\<open>downloadLink.split("/").pop()\<close>\<close>

text \<open>\<^verbatim>\<open>s.split(sep)\<close> for a separator of one character: the pieces between the
  separators, in order; the empty string gives one empty piece.\<close>

fun split_str :: "char \<Rightarrow> string \<Rightarrow> string list" where
  "split_str sep [] = [[]]"
| "split_str sep (c # cs) =
     (if c = sep then [] # split_str sep cs
      else (case split_str sep cs of
              [] \<Rightarrow> [[c]]
            | w # ws \<Rightarrow> (c # w) # ws))"

text \<open>\<^verbatim>\<open>arr.pop()\<close>: the last element, \<^verbatim>\<open>undefined\<close> for an empty array.\<close>

fun pop :: "string list \<Rightarrow> jsval" where
  "pop [] = JUndefined"
| "pop [w] = JStr w"
| "pop (w # ws) = pop ws"

definition fileID_of :: "string \<Rightarrow> jsval" where
  "fileID_of downloadLink = pop (split_str CHR ''/'' downloadLink)"

subsection \<open>Effects\<close>

datatype logarg = ArgStr string | ArgVal jsval | ArgErr error

type_synonym consumer = nat

datatype event =
    LogInfo "logarg list"
  | LogError "logarg list"
  | GetFileCall jsval string
  | GetFileMetadataCall jsval string
  | SendCall jsval
  | SetupCall
  | StartCall consumer

text \<open>A computation: the events it caused, and how it ended (\<open>Inl\<close>: it threw).\<close>

type_synonym 'a io = "event list \<times> (error + 'a)"

definition ret :: "'a \<Rightarrow> 'a io" where
  "ret x = ([], Inr x)"

definition emit :: "event \<Rightarrow> unit io" where
  "emit ev = ([ev], Inr ())"

definition lift :: "error + 'a \<Rightarrow> 'a io" where
  "lift r = ([], r)"

text \<open>Sequencing (\<^verbatim>\<open>await\<close>, or the next statement): a throw skips the rest.\<close>

definition then_do :: "'a io \<Rightarrow> ('a \<Rightarrow> 'b io) \<Rightarrow> 'b io" where
  "then_do m f =
     (case m of
        (t, Inl e) \<Rightarrow> (t, Inl e)
      | (t, Inr x) \<Rightarrow> (case f x of (t', r) \<Rightarrow> (t @ t', r)))"

text \<open>\<^verbatim>\<open>try { m } catch (error) { h(error) }\<close>\<close>

definition try_catch :: "'a io \<Rightarrow> (error \<Rightarrow> 'a io) \<Rightarrow> 'a io" where
  "try_catch m h =
     (case m of
        (t, Inl e) \<Rightarrow> (case h e of (t', r) \<Rightarrow> (t @ t', r))
      | (t, Inr x) \<Rightarrow> (t, Inr x))"

text \<open>The logger writes a line and returns.\<close>

definition log_info :: "logarg list \<Rightarrow> unit io" where
  "log_info args = emit (LogInfo args)"

definition log_error :: "logarg list \<Rightarrow> unit io" where
  "log_error args = emit (LogError args)"

subsection \<open>The collaborators\<close>

text \<open>
  The modules \<^verbatim>\<open>./minio\<close>, \<^verbatim>\<open>./send\<close>, \<^verbatim>\<open>./kafka\<close> and
  \<^verbatim>\<open>./utils/env\<close> are imported by index.ts; what their functions answer is a
  parameter of the model. \<open>getFile\<close> and \<open>getFileMetadata\<close> take the file id and the
  bucket (the client handle \<^verbatim>\<open>minioClient\<close> is one fixed object) and return a value
  or throw; \<open>sendIFCFile\<close> resolves or rejects; \<open>IFC_BUCKET_NAME\<close> is what
  \<^verbatim>\<open>getEnv("MINIO_IFC_BUCKET")\<close> gave; \<open>setupKafkaConsumer\<close> resolves to a consumer
  or rejects, and \<open>startKafkaConsumer\<close> says whether subscribing with that consumer
  resolves or rejects.
\<close>

record env =
  IFC_BUCKET_NAME :: string
  getFile :: "jsval \<Rightarrow> string \<Rightarrow> error + jsval"
  getFileMetadata :: "jsval \<Rightarrow> string \<Rightarrow> error + jsval"
  sendIFCFile :: "jsval \<Rightarrow> error + unit"
  setupKafkaConsumer :: "error + consumer"
  startKafkaConsumer :: "consumer \<Rightarrow> error + unit"

record message =
  msg_value :: jsval
  msg_offset :: string

definition call_getFile :: "env \<Rightarrow> jsval \<Rightarrow> jsval io" where
  "call_getFile E fileID =
     ([GetFileCall fileID (IFC_BUCKET_NAME E)], getFile E fileID (IFC_BUCKET_NAME E))"

definition call_getFileMetadata :: "env \<Rightarrow> jsval \<Rightarrow> jsval io" where
  "call_getFileMetadata E fileID =
     ([GetFileMetadataCall fileID (IFC_BUCKET_NAME E)],
      getFileMetadata E fileID (IFC_BUCKET_NAME E))"

definition call_sendIFCFile :: "env \<Rightarrow> jsval \<Rightarrow> unit io" where
  "call_sendIFCFile E ifcData = ([SendCall ifcData], sendIFCFile E ifcData)"

subsection \<open>The message handler (index.ts, lines 32 to 57)\<close>

text \<open>The object literal of lines 45 to 50.\<close>

definition ifcData_of :: "jsval \<Rightarrow> jsval \<Rightarrow> jsval \<Rightarrow> jsval \<Rightarrow> jsval" where
  "ifcData_of project filename timestamp file =
     JObj [(''project'', project), (''filename'', filename),
           (''timestamp'', timestamp), (''file'', file)]"

text \<open>The body of the \<^verbatim>\<open>try\<close> block, lines 35 to 52.\<close>

definition handler_body :: "env \<Rightarrow> message \<Rightarrow> unit io" where
  "handler_body E message =
     then_do (log_info [ArgStr ''Processing Kafka message:'', ArgVal (msg_value message)]) (\<lambda>_.
     then_do (lift (toString (msg_value message))) (\<lambda>downloadLink.
     let fileID = fileID_of downloadLink in
     then_do (call_getFile E fileID) (\<lambda>file.
     if \<not> truthy file then
       log_error [ArgStr (''File '' @ String_of fileID @ '' not found'')]
     else
       then_do (call_getFileMetadata E fileID) (\<lambda>metadata.
       then_do (lift (get_prop metadata ''project'')) (\<lambda>project.
       then_do (lift (get_prop metadata ''filename'')) (\<lambda>filename.
       then_do (lift (get_prop metadata ''timestamp'')) (\<lambda>timestamp.
       call_sendIFCFile E (ifcData_of project filename timestamp file))))))))"

text \<open>The handler: the guard of line 33 around the \<^verbatim>\<open>try\<close>/\<^verbatim>\<open>catch\<close>.\<close>

definition handler :: "env \<Rightarrow> message \<Rightarrow> unit io" where
  "handler E message =
     (if truthy (msg_value message) then
        try_catch (handler_body E message)
          (\<lambda>error. log_error [ArgStr ''Error processing Kafka message:'', ArgErr error])
      else ret ())"

subsection \<open>Reading a trace\<close>

fun sends :: "event list \<Rightarrow> jsval list" where
  "sends [] = []"
| "sends (SendCall r # t) = r # sends t"
| "sends (ev # t) = sends t"

fun error_logs :: "event list \<Rightarrow> logarg list list" where
  "error_logs [] = []"
| "error_logs (LogError args # t) = args # error_logs t"
| "error_logs (ev # t) = error_logs t"

fun retrievals :: "event list \<Rightarrow> event list" where
  "retrievals [] = []"
| "retrievals (GetFileCall k b # t) = GetFileCall k b # retrievals t"
| "retrievals (GetFileMetadataCall k b # t) = GetFileMetadataCall k b # retrievals t"
| "retrievals (ev # t) = retrievals t"

subsection \<open>The consumer and \<^verbatim>\<open>main\<close>\<close>

text \<open>
  Modelled from the spec: the delivery loop of \<^verbatim>\<open>startKafkaConsumer\<close> (module
  \<^verbatim>\<open>./kafka\<close>, not among the sources). Section 4.1: for every message the broker
  delivers the consumer invokes the handler once, in delivery order; an error that leaves
  a handler invocation ends the loop, so the messages after it are not handled.
\<close>

fun deliver :: "(message \<Rightarrow> unit io) \<Rightarrow> message list \<Rightarrow> unit io" where
  "deliver h [] = ret ()"
| "deliver h (m # ms) = then_do (h m) (\<lambda>_. deliver h ms)"

text \<open>\<^verbatim>\<open>main\<close>, lines 24 to 60: the bootstrap up to the established subscription.\<close>

definition main :: "env \<Rightarrow> unit io" where
  "main E =
     then_do (log_info [ArgStr ''Starting server...'']) (\<lambda>_.
     then_do (log_info [ArgStr ''Setting up Kafka consumer...'']) (\<lambda>_.
     then_do ([SetupCall], setupKafkaConsumer E) (\<lambda>consumer.
     then_do (log_info [ArgStr ''Kafka consumer setup complete'']) (\<lambda>_.
     then_do (log_info [ArgStr ''Starting Kafka consumer...'']) (\<lambda>_.
     then_do ([StartCall consumer], startKafkaConsumer E consumer) (\<lambda>_.
     log_info [ArgStr ''Kafka consumer started'']))))))"


subsection \<open>The final path segment, as the specification words it\<close>

text \<open>The substring after the last \<open>/\<close> (the whole string when there is none).\<close>

definition final_segment :: "string \<Rightarrow> string" where
  "final_segment s = rev (takeWhile (\<lambda>c. c \<noteq> CHR ''/'') (rev s))"

subsection \<open>Concrete stores and messages\<close>

text \<open>The inputs the properties below are evaluated at.\<close>

definition msg_of :: "jsval \<Rightarrow> message" where
  "msg_of v = \<lparr>msg_value = v, msg_offset = ''0''\<rparr>"

definition scenario_metadata :: jsval where
  "scenario_metadata =
     JObj [(''project'', JStr ''P1''), (''filename'', JStr ''model.ifc''),
           (''timestamp'', JStr ''2024-01-01T00:00:00Z'')]"

text \<open>A value that is an object with an own property \<^verbatim>\<open>toString\<close>.\<close>

definition shadowing_value :: jsval where
  "shadowing_value = JObj [(''toString'', JStr ''x'')]"

text \<open>A store that holds the object \<open>abc123\<close> with its metadata and nothing else, a sender
  that accepts, and a broker that lets the consumer subscribe.\<close>

definition scenario_env :: env where
  "scenario_env =
     \<lparr>IFC_BUCKET_NAME = ''ifc-files'',
      getFile = (\<lambda>k b. if k = JStr ''abc123'' then Inr (JBuf ''ISO-10303-21;'') else Inr JUndefined),
      getFileMetadata = (\<lambda>k b. if k = JStr ''abc123'' then Inr scenario_metadata else Inr JUndefined),
      sendIFCFile = (\<lambda>r. Inr ()),
      setupKafkaConsumer = Inr 1,
      startKafkaConsumer = (\<lambda>c. Inr ())\<rparr>"

text \<open>The same store with a metadata record that carries two more fields.\<close>

definition rich_env :: env where
  "rich_env =
     scenario_env\<lparr>getFileMetadata := (\<lambda>k b. Inr (JObj
        [(''project'', JStr ''P1''), (''size'', JStr ''13''), (''filename'', JStr ''model.ifc''),
         (''timestamp'', JStr ''2024-01-01T00:00:00Z''), (''uploader'', JStr ''anna'')]))\<rparr>"

text \<open>The same store with the metadata of every object lost.\<close>

definition no_metadata_env :: env where
  "no_metadata_env = scenario_env\<lparr>getFileMetadata := (\<lambda>k b. Inr JUndefined)\<rparr>"

text \<open>The same store behind a sender that rejects every record.\<close>

definition failing_sender_env :: env where
  "failing_sender_env = scenario_env\<lparr>sendIFCFile := (\<lambda>r. Inl (Failure ''ECONNREFUSED''))\<rparr>"

text \<open>A store that answers every key, the empty one too.\<close>

definition any_key_env :: env where
  "any_key_env =
     scenario_env\<lparr>getFile := (\<lambda>k b. Inr (JBuf ''ISO-10303-21;'')),
                  getFileMetadata := (\<lambda>k b. Inr scenario_metadata)\<rparr>"



section \<open>Properties\<close>

subsection \<open>The file id\<close>

lemma split_str_not_Nil: "split_str sep s \<noteq> []"
  by (induction s) (auto split: list.splits)

lemma split_str_no_sep: "sep \<notin> set s \<Longrightarrow> split_str sep s = [s]"
  by (induction s) auto

lemma split_str_two: "sep \<in> set s \<Longrightarrow> \<exists>w v vs. split_str sep s = w # v # vs"
proof (induction s)
  case Nil
  then show ?case by simp
next
  case (Cons c cs)
  obtain w ws where ws: "split_str sep cs = w # ws"
    using split_str_not_Nil [of sep cs] by (cases "split_str sep cs") auto
  show ?case
  proof (cases "c = sep")
    case True
    then show ?thesis using ws by simp
  next
    case False
    with Cons.prems have "sep \<in> set cs" by simp
    then obtain w' v vs where "split_str sep cs = w' # v # vs"
      using Cons.IH by blast
    then show ?thesis using False by simp
  qed
qed

lemma pop_Cons_Cons: "pop (w # v # vs) = pop (v # vs)"
  by simp

lemma pop_split_str_after_sep:
  "pop (split_str sep (a @ sep # b)) = pop (split_str sep b)"
proof (induction a)
  case Nil
  obtain w ws where "split_str sep b = w # ws"
    using split_str_not_Nil [of sep b] by (cases "split_str sep b") auto
  then show ?case by simp
next
  case (Cons c cs)
  obtain w v vs where ws: "split_str sep (cs @ sep # b) = w # v # vs"
    using split_str_two [of sep "cs @ sep # b"] by auto
  show ?case
  proof (cases "c = sep")
    case True
    then show ?thesis using ws Cons.IH by simp
  next
    case False
    then show ?thesis using ws Cons.IH by simp
  qed
qed

lemma pop_split_str:
  "pop (split_str sep s) = JStr (rev (takeWhile (\<lambda>c. c \<noteq> sep) (rev s)))"
proof (cases "sep \<in> set s")
  case False
  then have tw: "takeWhile (\<lambda>c. c \<noteq> sep) (rev s) = rev s"
    by (auto intro: takeWhile_eq_all_conv [THEN iffD2])
  show ?thesis using False by (simp add: split_str_no_sep tw)
next
  case True
  then obtain a b where s: "s = a @ sep # b" and b: "sep \<notin> set b"
    by (auto dest: split_list_last)
  have tw: "takeWhile (\<lambda>c. c \<noteq> sep) (rev s) = rev b"
    using b by (auto simp: s takeWhile_tail)
  have "pop (split_str sep s) = JStr b"
    using b by (simp add: s pop_split_str_after_sep split_str_no_sep)
  then show ?thesis by (simp add: tw)
qed

lemma fileID_of_final_segment: "fileID_of s = JStr (final_segment s)"
  by (simp add: fileID_of_def final_segment_def pop_split_str)

subsection \<open>What one handler invocation does\<close>

lemma truthy_not_nullish: "truthy v \<Longrightarrow> \<not> nullish v"
  by (cases v) auto

lemma toString_Inr: "toString v = Inr s \<Longrightarrow> s = String_of v"
  by (cases v) (auto split: option.splits)

lemma error_logs_append: "error_logs (t @ u) = error_logs t @ error_logs u"
  by (induction t rule: error_logs.induct) auto

text \<open>The \<^verbatim>\<open>try\<close> block when line 36 throws: nothing but the info line has happened.\<close>

lemma handler_body_toString_throws:
  fixes E :: env and m :: message
  assumes "toString (msg_value m) = Inl e"
  shows "handler_body E m =
           ([LogInfo [ArgStr ''Processing Kafka message:'', ArgVal (msg_value m)]], Inl e)"
  using assms
  by (simp add: handler_body_def then_do_def log_info_def emit_def lift_def)

text \<open>Every path through the \<^verbatim>\<open>try\<close> block once the value has given its text.\<close>

lemma handler_body_paths:
  fixes E :: env and m :: message
  assumes "toString (msg_value m) = Inr s"
  defines "k \<equiv> fileID_of s"
  defines "b \<equiv> IFC_BUCKET_NAME E"
  defines "t0 \<equiv> [LogInfo [ArgStr ''Processing Kafka message:'', ArgVal (msg_value m)],
                  GetFileCall k b]"
  shows "handler_body E m =
    (case getFile E k b of
       Inl e \<Rightarrow> (t0, Inl e)
     | Inr file \<Rightarrow>
         if \<not> truthy file then
           (t0 @ [LogError [ArgStr (''File '' @ String_of k @ '' not found'')]], Inr ())
         else
           (case getFileMetadata E k b of
              Inl e \<Rightarrow> (t0 @ [GetFileMetadataCall k b], Inl e)
            | Inr md \<Rightarrow>
                if nullish md then
                  (t0 @ [GetFileMetadataCall k b], Inl (TypeError md ''project''))
                else
                  (let r = ifcData_of (prop_of md ''project'') (prop_of md ''filename'')
                             (prop_of md ''timestamp'') file in
                   (t0 @ [GetFileMetadataCall k b, SendCall r], sendIFCFile E r))))"
  using assms(1)
  unfolding k_def b_def t0_def
  by (simp add: handler_body_def then_do_def log_info_def log_error_def emit_def lift_def
      get_prop_def call_getFile_def call_getFileMetadata_def call_sendIFCFile_def Let_def
      split: sum.splits)

text \<open>A \<^verbatim>\<open>try\<close> block that throws has written no error line of its own.\<close>

lemma handler_body_failure_unlogged:
  fixes E :: env and m :: message
  assumes "snd (handler_body E m) = Inl e"
  shows "error_logs (fst (handler_body E m)) = []"
proof (cases "toString (msg_value m)")
  case (Inl e')
  show ?thesis by (simp add: handler_body_toString_throws [OF Inl])
next
  case (Inr s)
  show ?thesis
    using assms
    by (auto simp: handler_body_paths [OF Inr] Let_def split: sum.splits if_splits)
qed

lemma handler_catches:
  fixes E :: env and m :: message
  assumes "truthy (msg_value m)" and "snd (handler_body E m) = Inl e"
  shows "handler E m =
           (fst (handler_body E m) @
              [LogError [ArgStr ''Error processing Kafka message:'', ArgErr e]], Inr ())"
  using assms
  by (cases "handler_body E m")
     (simp add: handler_def try_catch_def log_error_def emit_def)

lemma handler_passes:
  fixes E :: env and m :: message
  assumes "truthy (msg_value m)" and "snd (handler_body E m) = Inr u"
  shows "handler E m = handler_body E m"
  using assms
  by (cases "handler_body E m") (simp add: handler_def try_catch_def)

text \<open>Every path through the handler for a message that passes the guard of line 33 and
  whose value gives its text.\<close>

lemma handler_paths:
  fixes E :: env and m :: message
  assumes "truthy (msg_value m)" and "toString (msg_value m) = Inr s"
  defines "k \<equiv> fileID_of s"
  defines "b \<equiv> IFC_BUCKET_NAME E"
  defines "t0 \<equiv> [LogInfo [ArgStr ''Processing Kafka message:'', ArgVal (msg_value m)],
                  GetFileCall k b]"
  defines "caught \<equiv> (\<lambda>e. LogError [ArgStr ''Error processing Kafka message:'', ArgErr e])"
  shows "handler E m =
    (case getFile E k b of
       Inl e \<Rightarrow> (t0 @ [caught e], Inr ())
     | Inr file \<Rightarrow>
         if \<not> truthy file then
           (t0 @ [LogError [ArgStr (''File '' @ String_of k @ '' not found'')]], Inr ())
         else
           (case getFileMetadata E k b of
              Inl e \<Rightarrow> (t0 @ [GetFileMetadataCall k b, caught e], Inr ())
            | Inr md \<Rightarrow>
                if nullish md then
                  (t0 @ [GetFileMetadataCall k b, caught (TypeError md ''project'')], Inr ())
                else
                  (let r = ifcData_of (prop_of md ''project'') (prop_of md ''filename'')
                             (prop_of md ''timestamp'') file in
                   case sendIFCFile E r of
                     Inl e \<Rightarrow> (t0 @ [GetFileMetadataCall k b, SendCall r, caught e], Inr ())
                   | Inr u \<Rightarrow> (t0 @ [GetFileMetadataCall k b, SendCall r], Inr ()))))"
  using assms(1)
  unfolding k_def b_def t0_def caught_def
  by (simp add: handler_def handler_body_paths [OF assms(2)] try_catch_def log_error_def
      emit_def Let_def split: sum.splits)

text \<open>The handler when line 36 throws: the info line and the error line of the
  \<^verbatim>\<open>catch\<close>; no collaborator is called.\<close>

lemma handler_toString_throws:
  fixes E :: env and m :: message
  assumes "truthy (msg_value m)" and "toString (msg_value m) = Inl e"
  shows "handler E m =
           ([LogInfo [ArgStr ''Processing Kafka message:'', ArgVal (msg_value m)],
             LogError [ArgStr ''Error processing Kafka message:'', ArgErr e]], Inr ())"
  using assms(1)
  by (simp add: handler_def handler_body_toString_throws [OF assms(2)] try_catch_def
      log_error_def emit_def)

lemma handler_shadowing_value:
  "handler scenario_env (msg_of shadowing_value) =
     ([LogInfo [ArgStr ''Processing Kafka message:'', ArgVal shadowing_value],
       LogError [ArgStr ''Error processing Kafka message:'',
                 ArgErr (TypeError shadowing_value ''toString'')]], Inr ())"
proof -
  have t: "truthy (msg_value (msg_of shadowing_value))"
    by (simp add: msg_of_def shadowing_value_def)
  have e: "toString (msg_value (msg_of shadowing_value)) =
             Inl (TypeError shadowing_value ''toString'')"
    by (simp add: msg_of_def shadowing_value_def)
  show ?thesis
    using handler_toString_throws [OF t e] by (simp add: msg_of_def)
qed

lemma handler_falsy: "\<not> truthy (msg_value m) \<Longrightarrow> handler E m = ([], Inr ())"
  by (simp add: handler_def ret_def)

lemma handler_returns: "snd (handler E m) = Inr ()"
proof (cases "truthy (msg_value m)")
  case True
  show ?thesis
  proof (cases "toString (msg_value m)")
    case (Inl e)
    show ?thesis by (simp add: handler_toString_throws [OF True Inl])
  next
    case (Inr s)
    show ?thesis
      by (simp add: handler_paths [OF True Inr] Let_def split: sum.splits)
  qed
next
  case False
  then show ?thesis by (simp add: handler_falsy)
qed

lemma deliver_handler:
  "deliver (handler E) ms = (concat (map (\<lambda>m. fst (handler E m)) ms), Inr ())"
proof (induction ms)
  case Nil
  show ?case by (simp add: ret_def)
next
  case (Cons m ms)
  obtain t where t: "handler E m = (t, Inr ())"
    using handler_returns [of E m] by (cases "handler E m") auto
  show ?case by (simp add: Cons.IH t then_do_def)
qed

lemma final_segment_suffix:
  "\<exists>p. s = p @ final_segment s \<and> (p = [] \<or> last p = CHR ''/'')"
proof -
  let ?P = "\<lambda>c. c \<noteq> CHR ''/''"
  let ?d = "dropWhile ?P (rev s)"
  have "rev ?d @ rev (takeWhile ?P (rev s)) = rev (takeWhile ?P (rev s) @ ?d)"
    by (simp only: rev_append)
  also have "\<dots> = rev (rev s)" by (simp only: takeWhile_dropWhile_id)
  finally have s: "s = rev ?d @ final_segment s" by (simp add: final_segment_def)
  have "rev ?d = [] \<or> last (rev ?d) = CHR ''/''"
  proof (cases "?d = []")
    case True
    then show ?thesis by simp
  next
    case False
    then have "\<not> ?P (hd ?d)" by (rule hd_dropWhile)
    then show ?thesis using False by (simp add: last_rev)
  qed
  with s show ?thesis by blast
qed

lemma final_segment_no_slash: "CHR ''/'' \<notin> set (final_segment s)"
  by (auto simp: final_segment_def dest: set_takeWhileD)

subsection \<open>The claims\<close>

text \<open>
  C1. When the message passes the guard, its value gives its text, \<^verbatim>\<open>getFile\<close>
  returns content for the key derived from that text and \<^verbatim>\<open>getFileMetadata\<close>
  returns a metadata record for it, the handler calls the sender exactly once, with the
  record made of the metadata's project, filename and timestamp and of the retrieved
  content. The witness is the scenario of the specification: value
  \<open>s3://bucket/abc123\<close>, metadata P1 / model.ifc / 2024-01-01T00:00:00Z.
\<close>

theorem handler_forwards_record:
  fixes E :: env and m :: message
  assumes "truthy (msg_value m)"
    and "toString (msg_value m) = Inr s"
    and "getFile E (fileID_of s) (IFC_BUCKET_NAME E) = Inr file"
    and "truthy file"
    and "getFileMetadata E (fileID_of s) (IFC_BUCKET_NAME E) = Inr md"
    and "\<not> nullish md"
  shows "sends (fst (handler E m)) =
           [JObj [(''project'', prop_of md ''project''), (''filename'', prop_of md ''filename''),
                  (''timestamp'', prop_of md ''timestamp''), (''file'', file)]]"
  using assms(3-6)
  by (simp add: handler_paths [OF assms(1,2)] ifcData_of_def Let_def split: sum.splits)

theorem handler_forwards_record_witness:
  "sends (fst (handler scenario_env (msg_of (JStr ''s3://bucket/abc123'')))) =
     [JObj [(''project'', JStr ''P1''), (''filename'', JStr ''model.ifc''),
            (''timestamp'', JStr ''2024-01-01T00:00:00Z''), (''file'', JBuf ''ISO-10303-21;'')]]"
  using handler_forwards_record [of "msg_of (JStr ''s3://bucket/abc123'')"
      "''s3://bucket/abc123''" scenario_env "JBuf ''ISO-10303-21;''" scenario_metadata]
  by (simp add: msg_of_def scenario_env_def scenario_metadata_def fileID_of_final_segment
      final_segment_def)

text \<open>
  C2. Whatever the store and the sender answer, also when any of them throws, a handler
  invocation ends normally. When a step of the \<^verbatim>\<open>try\<close> block throws (the
  \<^verbatim>\<open>toString\<close> call, \<^verbatim>\<open>getFile\<close>, \<^verbatim>\<open>getFileMetadata\<close>, a property read,
  \<^verbatim>\<open>sendIFCFile\<close>), the handler has done what the block did up to there and then
  written exactly one error line, which carries the error thrown. So the delivery loop
  handles every message it is given, each as if it came alone, and ends normally itself.
  The witness sends two messages to a sender that rejects every record: both are
  attempted, both failures are logged.
\<close>

theorem handler_contains_failures:
  "snd (handler E m) = Inr () \<and>
   (truthy (msg_value m) \<and> snd (handler_body E m) = Inl e \<longrightarrow>
      handler E m =
        (fst (handler_body E m) @
           [LogError [ArgStr ''Error processing Kafka message:'', ArgErr e]], Inr ()) \<and>
      error_logs (fst (handler E m)) =
        [[ArgStr ''Error processing Kafka message:'', ArgErr e]]) \<and>
   deliver (handler E) ms = (concat (map (\<lambda>m. fst (handler E m)) ms), Inr ())"
proof -
  have "handler E m =
        (fst (handler_body E m) @
           [LogError [ArgStr ''Error processing Kafka message:'', ArgErr e]], Inr ()) \<and>
      error_logs (fst (handler E m)) =
        [[ArgStr ''Error processing Kafka message:'', ArgErr e]]"
    if t: "truthy (msg_value m)" and b: "snd (handler_body E m) = Inl e"
    by (simp add: handler_catches [OF t b] error_logs_append
        handler_body_failure_unlogged [OF b])
  moreover have "snd (handler E m) = Inr ()" by (rule handler_returns)
  moreover have "deliver (handler E) ms = (concat (map (\<lambda>m. fst (handler E m)) ms), Inr ())"
    by (rule deliver_handler)
  ultimately show ?thesis by blast
qed

text \<open>The \<^verbatim>\<open>catch\<close> is what contains the failure: the body of the \<^verbatim>\<open>try\<close> block
  alone throws when the sender rejects, and a loop over it would stop at the first message.\<close>

lemma handler_body_throws:
  "handler_body failing_sender_env (msg_of (JBuf ''s3://bucket/abc123'')) =
     ([LogInfo [ArgStr ''Processing Kafka message:'', ArgVal (JBuf ''s3://bucket/abc123'')],
       GetFileCall (JStr ''abc123'') ''ifc-files'',
       GetFileMetadataCall (JStr ''abc123'') ''ifc-files'',
       SendCall (JObj [(''project'', JStr ''P1''), (''filename'', JStr ''model.ifc''),
                       (''timestamp'', JStr ''2024-01-01T00:00:00Z''),
                       (''file'', JBuf ''ISO-10303-21;'')])],
      Inl (Failure ''ECONNREFUSED''))"
proof -
  have ts: "toString (msg_value (msg_of (JBuf ''s3://bucket/abc123''))) =
              Inr ''s3://bucket/abc123''"
    by (simp add: msg_of_def)
  show ?thesis
    by (simp add: handler_body_paths [OF ts])
       (simp add: msg_of_def failing_sender_env_def scenario_env_def scenario_metadata_def
          ifcData_of_def fileID_of_final_segment final_segment_def)
qed

theorem handler_contains_failures_witness:
  "snd (handler failing_sender_env (msg_of (JBuf ''s3://bucket/abc123''))) = Inr () \<and>
   handler failing_sender_env (msg_of (JBuf ''s3://bucket/abc123'')) =
     ([LogInfo [ArgStr ''Processing Kafka message:'', ArgVal (JBuf ''s3://bucket/abc123'')],
       GetFileCall (JStr ''abc123'') ''ifc-files'',
       GetFileMetadataCall (JStr ''abc123'') ''ifc-files'',
       SendCall (JObj [(''project'', JStr ''P1''), (''filename'', JStr ''model.ifc''),
                       (''timestamp'', JStr ''2024-01-01T00:00:00Z''),
                       (''file'', JBuf ''ISO-10303-21;'')]),
       LogError [ArgStr ''Error processing Kafka message:'', ArgErr (Failure ''ECONNREFUSED'')]],
      Inr ()) \<and>
   snd (deliver (handler failing_sender_env)
          [msg_of (JBuf ''s3://bucket/abc123''), msg_of (JBuf ''s3://bucket/abc123'')]) = Inr () \<and>
   length (sends (fst (deliver (handler failing_sender_env)
          [msg_of (JBuf ''s3://bucket/abc123''), msg_of (JBuf ''s3://bucket/abc123'')]))) = 2 \<and>
   error_logs (fst (deliver (handler failing_sender_env)
          [msg_of (JBuf ''s3://bucket/abc123''), msg_of (JBuf ''s3://bucket/abc123'')])) =
     [[ArgStr ''Error processing Kafka message:'', ArgErr (Failure ''ECONNREFUSED'')],
      [ArgStr ''Error processing Kafka message:'', ArgErr (Failure ''ECONNREFUSED'')]]"
proof -
  let ?m = "msg_of (JBuf ''s3://bucket/abc123'')"
  have t: "truthy (msg_value ?m)" by (simp add: msg_of_def)
  have b: "snd (handler_body failing_sender_env ?m) = Inl (Failure ''ECONNREFUSED'')"
    by (simp add: handler_body_throws)
  have c: "snd (handler failing_sender_env ?m) = Inr () \<and>
     (truthy (msg_value ?m) \<and>
      snd (handler_body failing_sender_env ?m) = Inl (Failure ''ECONNREFUSED'') \<longrightarrow>
        handler failing_sender_env ?m =
          (fst (handler_body failing_sender_env ?m) @
             [LogError [ArgStr ''Error processing Kafka message:'',
                        ArgErr (Failure ''ECONNREFUSED'')]], Inr ()) \<and>
        error_logs (fst (handler failing_sender_env ?m)) =
          [[ArgStr ''Error processing Kafka message:'', ArgErr (Failure ''ECONNREFUSED'')]]) \<and>
     deliver (handler failing_sender_env) [?m, ?m] =
       (concat (map (\<lambda>m. fst (handler failing_sender_env m)) [?m, ?m]), Inr ())"
    by (rule handler_contains_failures)
  from c t b have h: "handler failing_sender_env ?m =
          (fst (handler_body failing_sender_env ?m) @
             [LogError [ArgStr ''Error processing Kafka message:'',
                        ArgErr (Failure ''ECONNREFUSED'')]], Inr ())"
    by blast
  from c have d: "deliver (handler failing_sender_env) [?m, ?m] =
       (concat (map (\<lambda>m. fst (handler failing_sender_env m)) [?m, ?m]), Inr ())"
    by blast
  have h': "handler failing_sender_env ?m =
     ([LogInfo [ArgStr ''Processing Kafka message:'', ArgVal (JBuf ''s3://bucket/abc123'')],
       GetFileCall (JStr ''abc123'') ''ifc-files'',
       GetFileMetadataCall (JStr ''abc123'') ''ifc-files'',
       SendCall (JObj [(''project'', JStr ''P1''), (''filename'', JStr ''model.ifc''),
                       (''timestamp'', JStr ''2024-01-01T00:00:00Z''),
                       (''file'', JBuf ''ISO-10303-21;'')]),
       LogError [ArgStr ''Error processing Kafka message:'', ArgErr (Failure ''ECONNREFUSED'')]],
      Inr ())"
    unfolding h by (simp add: handler_body_throws)
  show ?thesis unfolding d by (simp add: h')
qed

text \<open>
  C3. When the message passes the guard, its value gives its text, and \<^verbatim>\<open>getFile\<close>
  returns nothing for the derived key (\<^verbatim>\<open>undefined\<close>, \<^verbatim>\<open>null\<close>, any falsy
  value), the handler does exactly three things: the info line, the \<^verbatim>\<open>getFile\<close>
  call, and one error line \<open>File <key> not found\<close> with the key, the final segment of
  the text, in it. No metadata is fetched and nothing is sent. The witness is the scenario
  of the specification: value \<open>s3://bucket/missing\<close>.
\<close>

theorem handler_file_not_found:
  fixes E :: env and m :: message
  assumes "truthy (msg_value m)"
    and "toString (msg_value m) = Inr s"
    and "getFile E (fileID_of s) (IFC_BUCKET_NAME E) = Inr file"
    and "\<not> truthy file"
  shows "handler E m =
           ([LogInfo [ArgStr ''Processing Kafka message:'', ArgVal (msg_value m)],
             GetFileCall (JStr (final_segment s)) (IFC_BUCKET_NAME E),
             LogError [ArgStr (''File '' @ final_segment s @ '' not found'')]],
            Inr ())"
  using assms(3-4)
  by (simp add: handler_paths [OF assms(1,2)])
     (simp add: fileID_of_final_segment)

theorem handler_file_not_found_witness:
  "handler scenario_env (msg_of (JStr ''s3://bucket/missing'')) =
     ([LogInfo [ArgStr ''Processing Kafka message:'', ArgVal (JStr ''s3://bucket/missing'')],
       GetFileCall (JStr ''missing'') ''ifc-files'',
       LogError [ArgStr ''File missing not found'']],
      Inr ())"
  using handler_file_not_found [of "msg_of (JStr ''s3://bucket/missing'')"
      "''s3://bucket/missing''" scenario_env JUndefined]
  by (simp add: msg_of_def scenario_env_def fileID_of_final_segment final_segment_def)

text \<open>
  C4. When the content is there and the metadata is not (\<^verbatim>\<open>getFileMetadata\<close>
  throws, or returns \<^verbatim>\<open>undefined\<close> or \<^verbatim>\<open>null\<close>, so that reading
  \<^verbatim>\<open>metadata.project\<close> throws a TypeError), the handler stops after the metadata call
  with one error line that carries the error; nothing is sent, and it returns normally,
  as for absent content.
\<close>

theorem handler_metadata_absent:
  fixes E :: env and m :: message
  assumes "truthy (msg_value m)"
    and "toString (msg_value m) = Inr s"
    and "getFile E (fileID_of s) (IFC_BUCKET_NAME E) = Inr file"
    and "truthy file"
    and "getFileMetadata E (fileID_of s) (IFC_BUCKET_NAME E) = Inl e \<or>
         (getFileMetadata E (fileID_of s) (IFC_BUCKET_NAME E) = Inr md
          \<and> nullish md \<and> e = TypeError md ''project'')"
  shows "handler E m =
           ([LogInfo [ArgStr ''Processing Kafka message:'', ArgVal (msg_value m)],
             GetFileCall (fileID_of s) (IFC_BUCKET_NAME E),
             GetFileMetadataCall (fileID_of s) (IFC_BUCKET_NAME E),
             LogError [ArgStr ''Error processing Kafka message:'', ArgErr e]],
            Inr ())"
  using assms(3-5)
  by (auto simp: handler_paths [OF assms(1,2)])

theorem handler_metadata_absent_witness:
  "handler no_metadata_env (msg_of (JBuf ''s3://bucket/abc123'')) =
     ([LogInfo [ArgStr ''Processing Kafka message:'', ArgVal (JBuf ''s3://bucket/abc123'')],
       GetFileCall (JStr ''abc123'') ''ifc-files'',
       GetFileMetadataCall (JStr ''abc123'') ''ifc-files'',
       LogError [ArgStr ''Error processing Kafka message:'',
                 ArgErr (TypeError JUndefined ''project'')]],
      Inr ()) \<and>
   sends (fst (handler no_metadata_env (msg_of (JBuf ''s3://bucket/abc123'')))) = [] \<and>
   length (error_logs (fst (handler no_metadata_env (msg_of (JBuf ''s3://bucket/abc123''))))) = 1"
proof -
  let ?m = "msg_of (JBuf ''s3://bucket/abc123'')"
  have h: "handler no_metadata_env ?m =
     ([LogInfo [ArgStr ''Processing Kafka message:'', ArgVal (JBuf ''s3://bucket/abc123'')],
       GetFileCall (JStr ''abc123'') ''ifc-files'',
       GetFileMetadataCall (JStr ''abc123'') ''ifc-files'',
       LogError [ArgStr ''Error processing Kafka message:'',
                 ArgErr (TypeError JUndefined ''project'')]],
      Inr ())"
    using handler_metadata_absent [of ?m "''s3://bucket/abc123''" no_metadata_env
        "JBuf ''ISO-10303-21;''" "TypeError JUndefined ''project''" JUndefined]
    by (simp add: msg_of_def no_metadata_env_def scenario_env_def fileID_of_final_segment
        final_segment_def)
  show ?thesis by (simp add: h)
qed

text \<open>
  C5, as the code has it. The guard of line 33 is \<^verbatim>\<open>if (message.value)\<close>: a message
  whose value is \<^verbatim>\<open>undefined\<close>, \<^verbatim>\<open>null\<close> or the empty string is skipped, with
  no retrieval, no send and no log line of any kind.
\<close>

theorem handler_skips_falsy_value:
  fixes E :: env and m :: message
  assumes "msg_value m = JUndefined \<or> msg_value m = JNull \<or> msg_value m = JStr []"
  shows "handler E m = ([], Inr ())"
  using assms by (auto simp: handler_falsy)

theorem handler_skips_falsy_value_witness:
  "handler any_key_env (msg_of JNull) = ([], Inr ()) \<and>
   handler any_key_env (msg_of (JStr [])) = ([], Inr ())"
  using handler_skips_falsy_value [of "msg_of JNull" any_key_env]
    handler_skips_falsy_value [of "msg_of (JStr [])" any_key_env]
  by (simp add: msg_of_def)

text \<open>
  C5, as the claim states it, fails for a value that is empty but not falsy: an empty
  Buffer (a Kafka record with a value of zero bytes) passes the guard, its file id is the
  empty string, and the store is asked for it; here the store has no such object and the
  error line \<open>File  not found\<close> is written.
\<close>

theorem handler_empty_buffer_not_skipped:
  "handler scenario_env (msg_of (JBuf [])) =
     ([LogInfo [ArgStr ''Processing Kafka message:'', ArgVal (JBuf [])],
       GetFileCall (JStr []) ''ifc-files'',
       LogError [ArgStr ''File  not found'']],
      Inr ()) \<and>
   retrievals (fst (handler scenario_env (msg_of (JBuf [])))) =
     [GetFileCall (JStr []) ''ifc-files''] \<and>
   error_logs (fst (handler scenario_env (msg_of (JBuf [])))) = [[ArgStr ''File  not found'']]"
proof -
  have t: "truthy (msg_value (msg_of (JBuf [])))" by (simp add: msg_of_def)
  have ts: "toString (msg_value (msg_of (JBuf []))) = Inr []" by (simp add: msg_of_def)
  have h: "handler scenario_env (msg_of (JBuf [])) =
     ([LogInfo [ArgStr ''Processing Kafka message:'', ArgVal (JBuf [])],
       GetFileCall (JStr []) ''ifc-files'',
       LogError [ArgStr ''File  not found'']],
      Inr ())"
    by (simp add: handler_paths [OF t ts])
       (simp add: msg_of_def scenario_env_def fileID_of_final_segment final_segment_def)
  show ?thesis by (simp add: h)
qed

text \<open>
  C6. The file id the handler derives from a text is the final path segment of it: the
  part after the last \<open>/\<close>, without a \<open>/\<close> in it, the whole text when it has none.
  Deriving it throws for no string: \<^verbatim>\<open>toString\<close> of a string or a Buffer returns
  its text, \<^verbatim>\<open>split\<close> never returns an empty array, so \<^verbatim>\<open>pop\<close> always gives
  a string. For a message that passes the guard and whose value gives its text, the
  handler reaches the \<^verbatim>\<open>getFile\<close> call with the final segment of that text.
\<close>

theorem fileID_is_final_segment:
  fixes E :: env and m :: message
  assumes "truthy (msg_value m)" and "toString (msg_value m) = Inr d"
  shows "fileID_of s = JStr (final_segment s) \<and>
         CHR ''/'' \<notin> set (final_segment s) \<and>
         (\<exists>p. s = p @ final_segment s \<and> (p = [] \<or> last p = CHR ''/'')) \<and>
         toString (JStr s) = Inr s \<and> toString (JBuf s) = Inr s \<and>
         take 2 (fst (handler E m)) =
           [LogInfo [ArgStr ''Processing Kafka message:'', ArgVal (msg_value m)],
            GetFileCall (JStr (final_segment d)) (IFC_BUCKET_NAME E)]"
proof -
  have "take 2 (fst (handler E m)) =
           [LogInfo [ArgStr ''Processing Kafka message:'', ArgVal (msg_value m)],
            GetFileCall (JStr (final_segment d)) (IFC_BUCKET_NAME E)]"
    by (simp add: handler_paths [OF assms] fileID_of_final_segment Let_def split: sum.splits)
  then show ?thesis
    using final_segment_suffix [of s] final_segment_no_slash [of s]
    by (simp add: fileID_of_final_segment)
qed

theorem fileID_is_final_segment_witness:
  "fileID_of ''s3://bucket/abc123'' = JStr ''abc123'' \<and>
   fileID_of ''abc123'' = JStr ''abc123'' \<and>
   fileID_of ''a//b/'' = JStr [] \<and>
   take 2 (fst (handler scenario_env (msg_of (JBuf ''s3://bucket/abc123'')))) =
     [LogInfo [ArgStr ''Processing Kafka message:'', ArgVal (JBuf ''s3://bucket/abc123'')],
      GetFileCall (JStr ''abc123'') ''ifc-files'']"
  using fileID_is_final_segment [of "msg_of (JBuf ''s3://bucket/abc123'')"
      "''s3://bucket/abc123''" "''s3://bucket/abc123''" scenario_env]
    fileID_is_final_segment [of "msg_of (JBuf ''s3://bucket/abc123'')"
      "''s3://bucket/abc123''" "''abc123''" scenario_env]
    fileID_is_final_segment [of "msg_of (JBuf ''s3://bucket/abc123'')"
      "''s3://bucket/abc123''" "''a//b/''" scenario_env]
  by (simp add: msg_of_def scenario_env_def final_segment_def)

text \<open>
  C7, as the code has it. The handler does not look at the derived key before using it.
  For a value whose final segment is empty (a value ending in \<open>/\<close>) it asks the store
  for the empty key like for any other. When \<^verbatim>\<open>getFile\<close> returns nothing for the
  empty key, or throws, the message is dropped with one error line.
\<close>

theorem handler_empty_key_is_looked_up:
  fixes E :: env and m :: message
  assumes "truthy (msg_value m)"
    and "final_segment (String_of (msg_value m)) = []"
  shows "take 2 (fst (handler E m)) =
           [LogInfo [ArgStr ''Processing Kafka message:'', ArgVal (msg_value m)],
            GetFileCall (JStr []) (IFC_BUCKET_NAME E)] \<and>
         (getFile E (JStr []) (IFC_BUCKET_NAME E) = Inr file \<and> \<not> truthy file \<longrightarrow>
            handler E m =
              ([LogInfo [ArgStr ''Processing Kafka message:'', ArgVal (msg_value m)],
                GetFileCall (JStr []) (IFC_BUCKET_NAME E),
                LogError [ArgStr ''File  not found'']],
               Inr ())) \<and>
         (getFile E (JStr []) (IFC_BUCKET_NAME E) = Inl e \<longrightarrow>
            handler E m =
              ([LogInfo [ArgStr ''Processing Kafka message:'', ArgVal (msg_value m)],
                GetFileCall (JStr []) (IFC_BUCKET_NAME E),
                LogError [ArgStr ''Error processing Kafka message:'', ArgErr e]],
               Inr ()))"
proof -
  have ts: "toString (msg_value m) = Inr (String_of (msg_value m))"
    using assms by (cases "msg_value m") (auto simp: final_segment_def split: option.splits)
  have k: "fileID_of (String_of (msg_value m)) = JStr []"
    by (simp add: fileID_of_final_segment assms(2))
  show ?thesis
    by (simp add: handler_paths [OF assms(1) ts] k Let_def split: sum.splits)
qed

theorem handler_empty_key_is_looked_up_witness:
  "take 2 (fst (handler scenario_env (msg_of (JBuf ''s3://bucket/'')))) =
     [LogInfo [ArgStr ''Processing Kafka message:'', ArgVal (JBuf ''s3://bucket/'')],
      GetFileCall (JStr []) ''ifc-files''] \<and>
   handler scenario_env (msg_of (JBuf ''s3://bucket/'')) =
     ([LogInfo [ArgStr ''Processing Kafka message:'', ArgVal (JBuf ''s3://bucket/'')],
       GetFileCall (JStr []) ''ifc-files'',
       LogError [ArgStr ''File  not found'']],
      Inr ())"
  using handler_empty_key_is_looked_up [of "msg_of (JBuf ''s3://bucket/'')" scenario_env
      JUndefined "Failure ''none''"]
  by (simp add: msg_of_def scenario_env_def final_segment_def)

text \<open>
  C7, as the claim states it, fails at the value \<open>s3://bucket/\<close>. The store is asked for
  the empty key in every case: a store without such an object makes the handler report
  \<open>File  not found\<close>, and a store that answers the empty key is sent on downstream,
  with no error line at all.
\<close>

theorem handler_empty_key_not_rejected:
  "retrievals (fst (handler scenario_env (msg_of (JBuf ''s3://bucket/'')))) =
     [GetFileCall (JStr []) ''ifc-files''] \<and>
   handler any_key_env (msg_of (JBuf ''s3://bucket/'')) =
     ([LogInfo [ArgStr ''Processing Kafka message:'', ArgVal (JBuf ''s3://bucket/'')],
       GetFileCall (JStr []) ''ifc-files'',
       GetFileMetadataCall (JStr []) ''ifc-files'',
       SendCall (JObj [(''project'', JStr ''P1''), (''filename'', JStr ''model.ifc''),
                       (''timestamp'', JStr ''2024-01-01T00:00:00Z''),
                       (''file'', JBuf ''ISO-10303-21;'')])],
      Inr ())"
proof -
  have t: "truthy (msg_value (msg_of (JBuf ''s3://bucket/'')))" by (simp add: msg_of_def)
  have ts: "toString (msg_value (msg_of (JBuf ''s3://bucket/''))) = Inr ''s3://bucket/''"
    by (simp add: msg_of_def)
  have "handler scenario_env (msg_of (JBuf ''s3://bucket/'')) =
     ([LogInfo [ArgStr ''Processing Kafka message:'', ArgVal (JBuf ''s3://bucket/'')],
       GetFileCall (JStr []) ''ifc-files'',
       LogError [ArgStr ''File  not found'']],
      Inr ())"
    by (simp add: handler_paths [OF t ts])
       (simp add: msg_of_def scenario_env_def fileID_of_final_segment final_segment_def)
  moreover have "handler any_key_env (msg_of (JBuf ''s3://bucket/'')) =
     ([LogInfo [ArgStr ''Processing Kafka message:'', ArgVal (JBuf ''s3://bucket/'')],
       GetFileCall (JStr []) ''ifc-files'',
       GetFileMetadataCall (JStr []) ''ifc-files'',
       SendCall (JObj [(''project'', JStr ''P1''), (''filename'', JStr ''model.ifc''),
                       (''timestamp'', JStr ''2024-01-01T00:00:00Z''),
                       (''file'', JBuf ''ISO-10303-21;'')])],
      Inr ())"
    by (simp add: handler_paths [OF t ts])
       (simp add: msg_of_def any_key_env_def scenario_env_def scenario_metadata_def
          ifcData_of_def fileID_of_final_segment final_segment_def)
  ultimately show ?thesis by simp
qed

text \<open>
  C8. The handler keeps nothing between invocations: delivering a message twice to the
  same store and sender runs the same steps twice. With a value that gives its text,
  content and metadata present and a sender that accepts, that is two sends of the same
  record and no error line.
\<close>

theorem redelivery_sends_same_record_twice:
  fixes E :: env and m :: message
  assumes "truthy (msg_value m)"
    and "toString (msg_value m) = Inr s"
    and "getFile E (fileID_of s) (IFC_BUCKET_NAME E) = Inr file"
    and "truthy file"
    and "getFileMetadata E (fileID_of s) (IFC_BUCKET_NAME E) = Inr md"
    and "\<not> nullish md"
    and "r = JObj [(''project'', prop_of md ''project''), (''filename'', prop_of md ''filename''),
                   (''timestamp'', prop_of md ''timestamp''), (''file'', file)]"
    and "sendIFCFile E r = Inr ()"
  shows "deliver (handler E) [m, m] = (fst (handler E m) @ fst (handler E m), Inr ()) \<and>
         sends (fst (deliver (handler E) [m, m])) = [r, r] \<and>
         error_logs (fst (deliver (handler E) [m, m])) = []"
proof -
  have h: "fst (handler E m) =
      [LogInfo [ArgStr ''Processing Kafka message:'', ArgVal (msg_value m)],
       GetFileCall (fileID_of s) (IFC_BUCKET_NAME E),
       GetFileMetadataCall (fileID_of s) (IFC_BUCKET_NAME E),
       SendCall r]"
    using assms(3-8) by (simp add: handler_paths [OF assms(1,2)] ifcData_of_def)
  have d: "deliver (handler E) [m, m] = (fst (handler E m) @ fst (handler E m), Inr ())"
    unfolding deliver_handler by simp
  show ?thesis unfolding d by (simp add: h)
qed

theorem redelivery_sends_same_record_twice_witness:
  "sends (fst (deliver (handler scenario_env)
      [msg_of (JBuf ''s3://bucket/abc123''), msg_of (JBuf ''s3://bucket/abc123'')])) =
     [JObj [(''project'', JStr ''P1''), (''filename'', JStr ''model.ifc''),
            (''timestamp'', JStr ''2024-01-01T00:00:00Z''), (''file'', JBuf ''ISO-10303-21;'')],
      JObj [(''project'', JStr ''P1''), (''filename'', JStr ''model.ifc''),
            (''timestamp'', JStr ''2024-01-01T00:00:00Z''), (''file'', JBuf ''ISO-10303-21;'')]] \<and>
   error_logs (fst (deliver (handler scenario_env)
      [msg_of (JBuf ''s3://bucket/abc123''), msg_of (JBuf ''s3://bucket/abc123'')])) = []"
proof -
  let ?m = "msg_of (JBuf ''s3://bucket/abc123'')"
  let ?r = "JObj [(''project'', JStr ''P1''), (''filename'', JStr ''model.ifc''),
             (''timestamp'', JStr ''2024-01-01T00:00:00Z''), (''file'', JBuf ''ISO-10303-21;'')]"
  have "deliver (handler scenario_env) [?m, ?m] =
          (fst (handler scenario_env ?m) @ fst (handler scenario_env ?m), Inr ()) \<and>
        sends (fst (deliver (handler scenario_env) [?m, ?m])) = [?r, ?r] \<and>
        error_logs (fst (deliver (handler scenario_env) [?m, ?m])) = []"
    by (rule redelivery_sends_same_record_twice [of ?m "''s3://bucket/abc123''" scenario_env
          "JBuf ''ISO-10303-21;''" scenario_metadata ?r])
       (simp_all add: msg_of_def scenario_env_def scenario_metadata_def
          fileID_of_final_segment final_segment_def)
  then show ?thesis by blast
qed

subsection \<open>Bootstrap\<close>






text \<open>When nothing rejects, the bootstrap runs to its last line.\<close>

lemma main_succeeds:
  "main scenario_env =
      ([LogInfo [ArgStr ''Starting server...''],
        LogInfo [ArgStr ''Setting up Kafka consumer...''],
        SetupCall,
        LogInfo [ArgStr ''Kafka consumer setup complete''],
        LogInfo [ArgStr ''Starting Kafka consumer...''],
        StartCall 1,
        LogInfo [ArgStr ''Kafka consumer started'']], Inr ())"
  by (simp add: main_def then_do_def log_info_def emit_def scenario_env_def)

subsection \<open>The forwarded record\<close>

text \<open>
  C10. Every record the handler passes to the sender is the object literal of lines 45
  to 50: exactly the four properties \<open>project\<close>, \<open>filename\<close>, \<open>timestamp\<close>,
  \<open>file\<close>, in this order, the first three read from the metadata that
  \<^verbatim>\<open>getFileMetadata\<close> returned for the key and the fourth the content that
  \<^verbatim>\<open>getFile\<close> returned. Any other property of the metadata is absent from it.
\<close>

theorem sent_record_has_four_fields:
  fixes E :: env and m :: message
  assumes "r \<in> set (sends (fst (handler E m)))"
  shows "(\<exists>md file.
            getFile E (fileID_of (String_of (msg_value m))) (IFC_BUCKET_NAME E) = Inr file \<and>
            getFileMetadata E (fileID_of (String_of (msg_value m))) (IFC_BUCKET_NAME E) = Inr md \<and>
            r = JObj [(''project'', prop_of md ''project''), (''filename'', prop_of md ''filename''),
                      (''timestamp'', prop_of md ''timestamp''), (''file'', file)]) \<and>
         (\<forall>name. name \<notin> {''project'', ''filename'', ''timestamp'', ''file''} \<longrightarrow>
            prop_of r name = JUndefined)"
proof (cases "truthy (msg_value m)")
  case False
  with assms show ?thesis by (simp add: handler_falsy)
next
  case True
  let ?k = "fileID_of (String_of (msg_value m))"
  let ?b = "IFC_BUCKET_NAME E"
  from assms obtain s where ts: "toString (msg_value m) = Inr s"
    by (cases "toString (msg_value m)") (auto simp: handler_toString_throws [OF True])
  have s: "s = String_of (msg_value m)" by (rule toString_Inr [OF ts])
  from assms obtain md content where
    f: "getFile E ?k ?b = Inr content" and md: "getFileMetadata E ?k ?b = Inr md" and
    r: "r = ifcData_of (prop_of md ''project'') (prop_of md ''filename'')
              (prop_of md ''timestamp'') content"
    unfolding s [symmetric]
    by (auto simp: handler_paths [OF True ts] Let_def split: sum.splits if_splits)
  have "\<forall>name. name \<notin> {''project'', ''filename'', ''timestamp'', ''file''} \<longrightarrow>
          prop_of r name = JUndefined"
    by (simp add: r ifcData_of_def)
  with f md r show ?thesis by (auto simp: ifcData_of_def)
qed

theorem sent_record_has_four_fields_witness:
  "JObj [(''project'', JStr ''P1''), (''filename'', JStr ''model.ifc''),
         (''timestamp'', JStr ''2024-01-01T00:00:00Z''), (''file'', JBuf ''ISO-10303-21;'')]
     \<in> set (sends (fst (handler rich_env (msg_of (JBuf ''s3://bucket/abc123''))))) \<and>
   prop_of (JObj [(''project'', JStr ''P1''), (''filename'', JStr ''model.ifc''),
         (''timestamp'', JStr ''2024-01-01T00:00:00Z''), (''file'', JBuf ''ISO-10303-21;'')])
      ''size'' = JUndefined \<and>
   getFileMetadata rich_env (JStr ''abc123'') ''ifc-files'' =
     Inr (JObj [(''project'', JStr ''P1''), (''size'', JStr ''13''),
                (''filename'', JStr ''model.ifc''),
                (''timestamp'', JStr ''2024-01-01T00:00:00Z''), (''uploader'', JStr ''anna'')])"
proof -
  let ?m = "msg_of (JBuf ''s3://bucket/abc123'')"
  let ?r = "JObj [(''project'', JStr ''P1''), (''filename'', JStr ''model.ifc''),
         (''timestamp'', JStr ''2024-01-01T00:00:00Z''), (''file'', JBuf ''ISO-10303-21;'')]"
  have t: "truthy (msg_value ?m)" by (simp add: msg_of_def)
  have ts: "toString (msg_value ?m) = Inr ''s3://bucket/abc123''" by (simp add: msg_of_def)
  have "fst (handler rich_env ?m) =
      [LogInfo [ArgStr ''Processing Kafka message:'', ArgVal (JBuf ''s3://bucket/abc123'')],
       GetFileCall (JStr ''abc123'') ''ifc-files'',
       GetFileMetadataCall (JStr ''abc123'') ''ifc-files'',
       SendCall ?r]"
    by (simp add: handler_paths [OF t ts])
       (simp add: msg_of_def rich_env_def scenario_env_def ifcData_of_def
          fileID_of_final_segment final_segment_def)
  then have mem: "?r \<in> set (sends (fst (handler rich_env ?m)))" by simp
  have "\<forall>name. name \<notin> {''project'', ''filename'', ''timestamp'', ''file''} \<longrightarrow>
          prop_of ?r name = JUndefined"
    using sent_record_has_four_fields [OF mem] by (rule conjunct2)
  then have "prop_of ?r ''size'' = JUndefined" by simp
  moreover have "getFileMetadata rich_env (JStr ''abc123'') ''ifc-files'' =
     Inr (JObj [(''project'', JStr ''P1''), (''size'', JStr ''13''),
                (''filename'', JStr ''model.ifc''),
                (''timestamp'', JStr ''2024-01-01T00:00:00Z''), (''uploader'', JStr ''anna'')])"
    by (simp add: rich_env_def)
  ultimately show ?thesis using mem by blast
qed

end
